theory Spec2Isabelle
  imports Main
begin

section \<open>Exceptions and the audit log (etl/extract.py)\<close>

text \<open>
  Python exceptions are values. Each constructor is one exception class the three stages
  can meet and carries the text of \<open>str(e)\<close>. \<open>S3UploadFailedError\<close> and
  \<open>PermissionError\<close> are classes that the \<open>except\<close> clause of the upload loop
  does not name.
\<close>

datatype exn =
    FileNotFoundError string
  | ValueError string
  | RuntimeError string
  | AttributeError string
  | OSError string
  | IndexError string
  | TypeError string
  | PermissionError string
  | JSONDecodeError string
  | NoCredentialsError string
  | BotoCoreError string
  | ClientError string
  | S3UploadFailedError string

fun str_exn :: "exn \<Rightarrow> string" where
  "str_exn (FileNotFoundError m) = m"
| "str_exn (ValueError m) = m"
| "str_exn (RuntimeError m) = m"
| "str_exn (AttributeError m) = m"
| "str_exn (OSError m) = m"
| "str_exn (IndexError m) = m"
| "str_exn (TypeError m) = m"
| "str_exn (PermissionError m) = m"
| "str_exn (JSONDecodeError m) = m"
| "str_exn (NoCredentialsError m) = m"
| "str_exn (BotoCoreError m) = m"
| "str_exn (ClientError m) = m"
| "str_exn (S3UploadFailedError m) = m"

definition quoted :: "string \<Rightarrow> string" where
  "quoted s = [CHR 0x27] @ s @ [CHR 0x27]"


definition not_iterable :: "string \<Rightarrow> exn" where
  "not_iterable type_name = TypeError (quoted type_name @ '' object is not iterable'')"

definition no_such_file :: "string \<Rightarrow> exn" where
  "no_such_file p = FileNotFoundError (''[Errno 2] No such file or directory: '' @ quoted p)"

definition index_out_of_range :: exn where
  "index_out_of_range = IndexError ''list index out of range''"

definition int_of_none :: exn where
  "int_of_none = TypeError (''int() argument must be a string, a bytes-like object or a real number, not ''
      @ quoted ''NoneType'')"

datatype status = SUCCESS | FAILED

text \<open>
  One row of \<open>etl_error_log.csv\<close>. The first column of the real row is the wall-clock
  time of the call, which no statement below reads; it is left out.
\<close>

record log_row =
  log_raw_file :: string
  log_clean_file :: string
  log_status :: status
  log_error_message :: string

section \<open>Characters, digits and paths\<close>

definition digit_char :: "nat \<Rightarrow> char" where
  "digit_char n = (''0123456789'' ! (n mod 10))"

definition digit_of :: "char \<Rightarrow> nat option" where
  "digit_of c = map_of (zip ''0123456789'' [0, 1, 2, 3, 4, 5, 6, 7, 8, 9]) c"

text \<open>\<open>str(n)\<close> for a Python int: decimal digits, a minus sign when negative.\<close>

fun str_nat :: "nat \<Rightarrow> string" where
  "str_nat n = (if n < 10 then [digit_char n] else str_nat (n div 10) @ [digit_char n])"

definition str_int :: "int \<Rightarrow> string" where
  "str_int i = (if i < 0 then CHR ''-'' # str_nat (nat (- i)) else str_nat (nat i))"

text \<open>\<open>str.lower\<close> on the ASCII letters (other characters are left as they are).\<close>

definition lower_char :: "char \<Rightarrow> char" where
  "lower_char c =
    (case map_of (zip ''ABCDEFGHIJKLMNOPQRSTUVWXYZ'' ''abcdefghijklmnopqrstuvwxyz'') c of
       Some l \<Rightarrow> l
     | None \<Rightarrow> c)"

definition lower :: "string \<Rightarrow> string" where
  "lower s = map lower_char s"

definition endswith :: "string \<Rightarrow> string \<Rightarrow> bool" where
  "endswith s suf = (length suf \<le> length s \<and> drop (length s - length suf) s = suf)"

text \<open>\<open>os.path.join\<close> of two components and \<open>os.path.basename\<close>, POSIX flavour.\<close>

definition path_join :: "string \<Rightarrow> string \<Rightarrow> string" where
  "path_join a b =
    (if b \<noteq> [] \<and> hd b = CHR ''/'' then b
     else if a = [] \<or> last a = CHR ''/'' then a @ b
     else a @ ''/'' @ b)"

definition basename :: "string \<Rightarrow> string" where
  "basename p = rev (takeWhile (\<lambda>c. c \<noteq> CHR ''/'') (rev p))"

section \<open>Condition codes (etl/extract.py, interpret\_weather\_code)\<close>

definition interpret_weather_code :: "int \<Rightarrow> string" where
  "interpret_weather_code code =
    (if code = 0 then ''Clear sky''
     else if code = 1 then ''Mostly clear''
     else if code = 2 then ''Partly cloudy''
     else if code = 3 then ''Overcast''
     else if code \<in> {45, 48} then ''Fog or Rime fog''
     else if 51 \<le> code \<and> code \<le> 55 then ''Drizzle (Light to Dense)''
     else if 56 \<le> code \<and> code \<le> 57 then ''Freezing Drizzle''
     else if 61 \<le> code \<and> code \<le> 65 then ''Rain (Slight to Heavy)''
     else if 66 \<le> code \<and> code \<le> 67 then ''Freezing Rain''
     else if 80 \<le> code \<and> code \<le> 82 then ''Rain showers (Slight to Violent)''
     else if 85 \<le> code \<and> code \<le> 86 then ''Snow showers (Slight to Heavy)''
     else if code = 95 then ''Thunderstorm (Slight or Moderate)''
     else if 96 \<le> code \<and> code \<le> 99 then ''Thunderstorm with hail''
     else ''Conditions Varies (WMO Code '' @ str_int code @ '')'')"

text \<open>
  The rule set as the specification words it: an ordered list of rules, every exact-match
  rule before every range rule, the first matching rule giving the label, and a fallback
  that keeps the raw code.
\<close>

datatype rule = Exact int string | Range int int string

fun rule_matches :: "rule \<Rightarrow> int \<Rightarrow> bool" where
  "rule_matches (Exact k l) c = (c = k)"
| "rule_matches (Range lo hi l) c = (lo \<le> c \<and> c \<le> hi)"

fun rule_label :: "rule \<Rightarrow> string" where
  "rule_label (Exact k l) = l"
| "rule_label (Range lo hi l) = l"

fun is_exact :: "rule \<Rightarrow> bool" where
  "is_exact (Exact k l) = True"
| "is_exact (Range lo hi l) = False"

definition spec_exact_rules :: "rule list" where
  "spec_exact_rules =
    [Exact 0 ''Clear sky'', Exact 1 ''Mostly clear'', Exact 2 ''Partly cloudy'',
     Exact 3 ''Overcast'', Exact 45 ''Fog or Rime fog'', Exact 48 ''Fog or Rime fog'',
     Exact 95 ''Thunderstorm (Slight or Moderate)'']"

definition spec_range_rules :: "rule list" where
  "spec_range_rules =
    [Range 51 55 ''Drizzle (Light to Dense)'', Range 56 57 ''Freezing Drizzle'',
     Range 61 65 ''Rain (Slight to Heavy)'', Range 66 67 ''Freezing Rain'',
     Range 80 82 ''Rain showers (Slight to Violent)'',
     Range 85 86 ''Snow showers (Slight to Heavy)'',
     Range 96 99 ''Thunderstorm with hail'']"

definition spec_rules :: "rule list" where
  "spec_rules = spec_exact_rules @ spec_range_rules"

fun spec_first_match :: "rule list \<Rightarrow> int \<Rightarrow> string" where
  "spec_first_match [] c = ''Conditions Varies (WMO Code '' @ str_int c @ '')''"
| "spec_first_match (r # rs) c = (if rule_matches r c then rule_label r else spec_first_match rs c)"

section \<open>The Python library\<close>

text \<open>
  What the stages use of the interpreter's library and no file of the repository defines
  is a parameter of the model: \<open>str.lower\<close>, \<open>datetime.strptime\<close> with the format
  \<open>"%Y-%m-%dT%H:%M"\<close> (\<open>None\<close> when it raises) and \<open>strftime\<close> with the two formats
  \<open>"%Y-%m-%d"\<close> and \<open>"%I:%M %p"\<close>. The general statements hold for every such library;
  \<open>python_ascii\<close> below is the library on ASCII text, for the concrete inputs.
\<close>

record datetime =
  year :: nat
  month :: nat
  day :: nat
  hour :: nat
  minute :: nat

record pylib =
  str_lower :: "string \<Rightarrow> string"
  strptime :: "string \<Rightarrow> datetime option"
  strftime_date :: "datetime \<Rightarrow> string"
  strftime_time_ampm :: "datetime \<Rightarrow> string"

text \<open>
  \<open>strptime\<close> matches the text against the regular expression that \<open>_strptime\<close>
  builds from the format, case-insensitively and up to the end of the text, and then
  builds the date, which fails for year 0 and for a day the month does not have. Each
  directive is followed by a separator its own text cannot contain, so the text of a
  directive is what stands before the next separator.
\<close>

definition split_at :: "(char \<Rightarrow> bool) \<Rightarrow> string \<Rightarrow> (string \<times> string) option" where
  "split_at sep s =
    (case dropWhile (\<lambda>c. \<not> sep c) s of
       [] \<Rightarrow> None
     | _ # r \<Rightarrow> Some (takeWhile (\<lambda>c. \<not> sep c) s, r))"

definition is_dash :: "char \<Rightarrow> bool" where
  "is_dash c = (c = CHR ''-'')"

definition is_T :: "char \<Rightarrow> bool" where
  "is_T c = (c = CHR ''T'' \<or> c = CHR ''t'')"

definition is_colon :: "char \<Rightarrow> bool" where
  "is_colon c = (c = CHR '':'')"

text \<open>The texts of the five directives: year, month, day, hour and minute.\<close>

definition split_fields :: "string \<Rightarrow> (string \<times> string \<times> string \<times> string \<times> string) option" where
  "split_fields s =
    (case split_at is_dash (drop 4 s) of
       None \<Rightarrow> None
     | Some (nothing, s1) \<Rightarrow>
         (case split_at is_dash s1 of
            None \<Rightarrow> None
          | Some (ms, s2) \<Rightarrow>
              (case split_at is_T s2 of
                 None \<Rightarrow> None
               | Some (ds, s3) \<Rightarrow>
                   (case split_at is_colon s3 of
                      None \<Rightarrow> None
                    | Some (hs, s4) \<Rightarrow>
                        (if nothing = [] then Some (take 4 s, ms, ds, hs, s4) else None)))))"

text \<open>\<open>%Y\<close>: four digits.\<close>

definition strptime_Y :: "string \<Rightarrow> nat option" where
  "strptime_Y s =
    (case map digit_of s of
       [Some a, Some b, Some c, Some d] \<Rightarrow> Some (1000 * a + 100 * b + 10 * c + d)
     | _ \<Rightarrow> None)"

text \<open>\<open>%m\<close>: \<open>1[0-2]|0[1-9]|[1-9]\<close>.\<close>

definition strptime_m :: "string \<Rightarrow> nat option" where
  "strptime_m s =
    (case map digit_of s of
       [Some a, Some b] \<Rightarrow>
         (if (a = 1 \<and> b \<le> 2) \<or> (a = 0 \<and> 1 \<le> b) then Some (10 * a + b) else None)
     | [Some a] \<Rightarrow> (if 1 \<le> a then Some a else None)
     | _ \<Rightarrow> None)"

text \<open>\<open>%d\<close>: \<open>3[0-1]|[1-2]\d|0[1-9]|[1-9]| [1-9]\<close>.\<close>

definition strptime_d :: "string \<Rightarrow> nat option" where
  "strptime_d s =
    (case s of
       [x, y] \<Rightarrow>
         (case (digit_of x, digit_of y) of
            (Some a, Some b) \<Rightarrow>
              (if (a = 3 \<and> b \<le> 1) \<or> a = 1 \<or> a = 2 \<or> (a = 0 \<and> 1 \<le> b)
               then Some (10 * a + b) else None)
          | (None, Some b) \<Rightarrow> (if x = CHR '' '' \<and> 1 \<le> b then Some b else None)
          | _ \<Rightarrow> None)
     | [x] \<Rightarrow> (case digit_of x of Some a \<Rightarrow> (if 1 \<le> a then Some a else None) | None \<Rightarrow> None)
     | _ \<Rightarrow> None)"

text \<open>\<open>%H\<close>: \<open>2[0-3]|[0-1]\d|\d\<close>.\<close>

definition strptime_H :: "string \<Rightarrow> nat option" where
  "strptime_H s =
    (case map digit_of s of
       [Some a, Some b] \<Rightarrow> (if (a = 2 \<and> b \<le> 3) \<or> a \<le> 1 then Some (10 * a + b) else None)
     | [Some a] \<Rightarrow> Some a
     | _ \<Rightarrow> None)"

text \<open>\<open>%M\<close>: \<open>[0-5]\d|\d\<close>, with nothing left after it.\<close>

definition strptime_M :: "string \<Rightarrow> nat option" where
  "strptime_M s =
    (case map digit_of s of
       [Some a, Some b] \<Rightarrow> (if a \<le> 5 then Some (10 * a + b) else None)
     | [Some a] \<Rightarrow> Some a
     | _ \<Rightarrow> None)"

definition is_leap :: "nat \<Rightarrow> bool" where
  "is_leap y = (y mod 4 = 0 \<and> (y mod 100 \<noteq> 0 \<or> y mod 400 = 0))"

definition days_in_month :: "nat \<Rightarrow> nat \<Rightarrow> nat" where
  "days_in_month y m =
    (if m = 2 then (if is_leap y then 29 else 28)
     else if m = 4 \<or> m = 6 \<or> m = 9 \<or> m = 11 then 30 else 31)"

definition valid_date :: "nat \<Rightarrow> nat \<Rightarrow> nat \<Rightarrow> bool" where
  "valid_date y m d = (y \<noteq> 0 \<and> d \<le> days_in_month y m)"

definition strptime_ascii :: "string \<Rightarrow> datetime option" where
  "strptime_ascii s =
    (case split_fields s of
       None \<Rightarrow> None
     | Some (ys, ms, ds, hs, mis) \<Rightarrow>
         (case (strptime_Y ys, strptime_m ms, strptime_d ds, strptime_H hs, strptime_M mis) of
            (Some y, Some m, Some d, Some h, Some mi) \<Rightarrow>
              (if valid_date y m d
               then Some \<lparr>year = y, month = m, day = d, hour = h, minute = mi\<rparr>
               else None)
          | _ \<Rightarrow> None))"

definition pad2 :: "nat \<Rightarrow> string" where
  "pad2 n = [digit_char (n div 10), digit_char n]"

text \<open>
  \<open>strftime\<close> in the C locale with the C library of Linux, which writes the year
  without padding.
\<close>

definition strftime_date_c :: "datetime \<Rightarrow> string" where
  "strftime_date_c dt = str_nat (year dt) @ ''-'' @ pad2 (month dt) @ ''-'' @ pad2 (day dt)"

definition strftime_time_ampm_c :: "datetime \<Rightarrow> string" where
  "strftime_time_ampm_c dt =
    pad2 (if hour dt mod 12 = 0 then 12 else hour dt mod 12) @ '':'' @ pad2 (minute dt)
      @ '' '' @ (if hour dt < 12 then ''AM'' else ''PM'')"

definition python_ascii :: pylib where
  "python_ascii = \<lparr>str_lower = lower, strptime = strptime_ascii,
      strftime_date = strftime_date_c, strftime_time_ampm = strftime_time_ampm_c\<rparr>"

section \<open>Snapshots, datasets and the world\<close>

text \<open>
  A snapshot is the JSON document the Fetcher writes, as far as \<open>transform_data\<close>
  inspects it. A JSON scalar that is written to a dataset is the text \<open>csv\<close> writes for
  it, \<open>None\<close> when the key is absent or \<open>null\<close>. For \<open>time_PKT\<close>, \<open>None\<close> is every
  point on which \<open>rec["time_PKT"]\<close> or \<open>strptime\<close> raises for the type of the value.
\<close>

record point =
  time_PKT :: "string option"
  temperature_c :: "string option"
  humidity_percent :: "string option"
  conditions :: "string option"
  wind_speed_kmh :: "string option"

text \<open>
  An entry of the snapshot. \<open>city\<close> is the name, or the \<open>AttributeError\<close> that lines
  46-48 raise for the entry: the entry is not an object (\<open>no_attribute t ''get''\<close>), or
  its city is absent, \<open>null\<close> or not a string (\<open>no_attribute t ''replace''\<close>), \<open>t\<close> being
  the name of the type. \<open>current_hourly_forecast_PKT\<close> is the list of points (empty
  when the key is absent), or the \<open>TypeError\<close> that iterating the value raises.
\<close>

record city_forecast =
  city :: "exn + string"
  current_hourly_forecast_PKT :: "exn + point list"

text \<open>
  A CSV file is the list of the records \<open>csv.reader\<close> yields for it, each the list of
  its cells, and whether it ends where a record starts: it is empty or its last record
  is followed by a line terminator. A file that ends inside a quoted cell is not
  represented. A path that maps to \<open>None\<close> does not exist.
\<close>

record csv_file =
  records :: "string list list"
  terminated :: bool

definition empty_file :: csv_file where
  "empty_file = \<lparr>records = [], terminated = True\<rparr>"

definition at_record_start :: "csv_file \<Rightarrow> bool" where
  "at_record_start f = (records f = [] \<or> terminated f)"

text \<open>
  Text written after a record that no line terminator ended continues that record: the
  first cell written goes on in its last cell, the other cells follow. (So it is read
  back when the first cell written needs no quoting.)
\<close>

definition merge_record :: "string list \<Rightarrow> string list \<Rightarrow> string list" where
  "merge_record old new =
    (if old = [] \<or> new = [] then old @ new
     else butlast old @ [last old @ hd new] @ tl new)"

text \<open>Writing whole records, each with its line terminator, at the end of a file.\<close>

definition write_records :: "csv_file \<Rightarrow> string list list \<Rightarrow> csv_file" where
  "write_records f recs =
    (case recs of
       [] \<Rightarrow> f
     | r # rs \<Rightarrow>
         if at_record_start f
         then \<lparr>records = records f @ recs, terminated = True\<rparr>
         else \<lparr>records = butlast (records f) @ merge_record (last (records f)) r # rs,
               terminated = True\<rparr>)"

text \<open>Writing the first cells of a record, without its line terminator.\<close>

definition write_cells :: "csv_file \<Rightarrow> string list \<Rightarrow> csv_file" where
  "write_cells f cells =
    (if cells = [] then f
     else if at_record_start f
     then \<lparr>records = records f @ [cells], terminated = False\<rparr>
     else \<lparr>records = butlast (records f) @ [merge_record (last (records f)) cells],
           terminated = False\<rparr>)"

text \<open>
  The world the stages act on: the raw snapshot files (the decoded document, or the
  exception that opening or decoding the file or iterating the document raises), the
  dataset files, the rows of the audit log and the objects in the bucket (bucket, key
  and the local path uploaded).
\<close>

record world =
  raw_files :: "string \<Rightarrow> (exn + city_forecast list) option"
  clean_files :: "string \<Rightarrow> csv_file option"
  audit_log :: "log_row list"
  s3_objects :: "(string \<times> string \<times> string) list"

text \<open>
  What the operating system does during one run. Writing to a path goes through, or the
  opening fails, or the writing fails after some of the records were written whole and
  the first cells of the next (no cell when nothing of it was written).
\<close>

datatype write_outcome = Written | OpenFails exn | WriteFails exn nat "string list"

record os_env =
  file_write :: "string \<Rightarrow> write_outcome"
  file_read :: "string \<Rightarrow> exn option"
  log_write :: "exn option"

text \<open>\<open>log_etl_status\<close>: one row more in the audit log, or the exception of the write.\<close>

definition log_etl_status ::
  "os_env \<Rightarrow> string \<Rightarrow> string \<Rightarrow> status \<Rightarrow> string \<Rightarrow> world \<Rightarrow> exn + world" where
  "log_etl_status os raw_file clean_file st error_message w =
    (case log_write os of
       Some e \<Rightarrow> Inl e
     | None \<Rightarrow>
         Inr (w\<lparr>audit_log := audit_log w @
           [\<lparr>log_raw_file = raw_file, log_clean_file = clean_file,
             log_status = st, log_error_message = error_message\<rparr>]\<rparr>))"

text \<open>
  The \<open>except\<close> clause of a stage: \<open>log_etl_status(raw_file, clean_file, "FAILED",
  str(e))\<close> and \<open>raise\<close>. When the logging raises, its exception is the one that leaves.
\<close>

definition log_failed_and_raise ::
  "os_env \<Rightarrow> string \<Rightarrow> string \<Rightarrow> exn \<Rightarrow> world \<Rightarrow> (exn + 'a) \<times> world" where
  "log_failed_and_raise os raw_file clean_file e w =
    (case log_etl_status os raw_file clean_file FAILED (str_exn e) w of
       Inl e' \<Rightarrow> (Inl e', w)
     | Inr w' \<Rightarrow> (Inl e, w'))"

section \<open>The Reconciler (etl/transform.py)\<close>

definition CLEAN_DIR :: string where
  "CLEAN_DIR = ''/mnt/d/projects/open-meteo_weather_etl_pipeline/data/clean''"

definition DEDUP_FIELDS :: "string list" where
  "DEDUP_FIELDS = [''date'', ''time_ampm'']"

definition headers :: "string list" where
  "headers = [''city'', ''date'', ''time_ampm'', ''temperature_c'', ''humidity_percent'',
              ''conditions'', ''wind_speed_kmh'']"

text \<open>
  \<open>csv.DictReader\<close>: the first record gives the field names, records without cells are
  skipped, and each other record becomes \<open>dict(zip(fieldnames, row))\<close>, in which a later
  column of the same name overrides an earlier one; the columns the record is too short
  for are set to \<open>None\<close> afterwards. \<open>read_row fieldnames row k\<close> is \<open>row.get(k)\<close>.
\<close>

definition read_row :: "string list \<Rightarrow> string list \<Rightarrow> string \<Rightarrow> string option" where
  "read_row fieldnames row k =
    (case map_of (rev (zip fieldnames
                     (map Some row @ replicate (length fieldnames - length row) None))) k of
       Some v \<Rightarrow> v
     | None \<Rightarrow> None)"

definition dict_reader :: "csv_file \<Rightarrow> (string \<Rightarrow> string option) list" where
  "dict_reader f =
    (case records f of
       [] \<Rightarrow> []
     | fieldnames # rest \<Rightarrow> map (read_row fieldnames) (filter (\<lambda>row. row \<noteq> []) rest))"

text \<open>Python truth of a cell read back: a string that is not empty.\<close>

definition truthy :: "string option \<Rightarrow> bool" where
  "truthy v = (case v of None \<Rightarrow> False | Some s \<Rightarrow> s \<noteq> [])"

text \<open>A key is the tuple \<open>tuple(row.get(k) for k in DEDUP_FIELDS)\<close>.\<close>

type_synonym key = "string option list"

definition load_existing_keys :: "os_env \<Rightarrow> world \<Rightarrow> string \<Rightarrow> exn + key set" where
  "load_existing_keys os w csv_path =
    (case clean_files w csv_path of
       None \<Rightarrow> Inr {}
     | Some f \<Rightarrow>
         (case file_read os csv_path of
            Some e \<Rightarrow> Inl e
          | None \<Rightarrow>
              Inr (set (filter (\<lambda>key. list_all truthy key)
                     (map (\<lambda>row. map row DEDUP_FIELDS) (dict_reader f))))))"

text \<open>
  A row queued for the append is a dict. \<open>csv.DictWriter\<close> raises \<open>ValueError\<close> for a
  dict with a key that is no field name (the text lists these keys in the order of a
  set); else it writes, for each field name, the value under it, \<open>None\<close> and a missing
  key as the empty cell.
\<close>

type_synonym row = "(string \<times> string option) list"

definition dict_to_list :: "string list \<Rightarrow> row \<Rightarrow> exn + string list" where
  "dict_to_list fieldnames rowdict =
    (let wrong_fields = filter (\<lambda>k. k \<notin> set fieldnames) (map fst rowdict)
     in if wrong_fields \<noteq> []
        then Inl (ValueError (''dict contains fields not in fieldnames: ''
                    @ concat (map (\<lambda>k. quoted k @ '', '') (butlast wrong_fields))
                    @ quoted (last wrong_fields)))
        else Inr (map (\<lambda>k. case map_of rowdict k of Some (Some v) \<Rightarrow> v | _ \<Rightarrow> []) fieldnames))"

text \<open>\<open>writerows\<close>: the records of the rows up to the first that raises, and its exception.\<close>

fun writerows :: "string list \<Rightarrow> row list \<Rightarrow> string list list \<times> exn option" where
  "writerows fieldnames [] = ([], None)"
| "writerows fieldnames (rowdict # rowdicts) =
    (case dict_to_list fieldnames rowdict of
       Inl e \<Rightarrow> ([], Some e)
     | Inr cells \<Rightarrow>
         (case writerows fieldnames rowdicts of (recs, e) \<Rightarrow> (cells # recs, e)))"

text \<open>
  \<open>append_rows\<close> returns the exception that leaves it, if one does, and the world it
  leaves behind. Opening in mode \<open>'a'\<close> creates the file; the header is written when
  the path did not exist before.
\<close>

definition append_rows ::
  "os_env \<Rightarrow> string \<Rightarrow> row list \<Rightarrow> string list \<Rightarrow> world \<Rightarrow> exn option \<times> world" where
  "append_rows os csv_path rows hdrs w =
    (let file_exists = (clean_files w csv_path \<noteq> None);
         f = (case clean_files w csv_path of None \<Rightarrow> empty_file | Some g \<Rightarrow> g);
         to_write = (if \<not> file_exists then [hdrs] else []) @ fst (writerows hdrs rows)
     in case file_write os csv_path of
          OpenFails e \<Rightarrow> (Some e, w)
        | Written \<Rightarrow>
            (snd (writerows hdrs rows),
             w\<lparr>clean_files := (clean_files w)(csv_path \<mapsto> write_records f to_write)\<rparr>)
        | WriteFails e n cells \<Rightarrow>
            (Some e,
             w\<lparr>clean_files := (clean_files w)(csv_path \<mapsto>
                 write_cells (write_records f (take n to_write)) cells)\<rparr>))"

definition canonical_row :: "string \<Rightarrow> string \<Rightarrow> string \<Rightarrow> point \<Rightarrow> row" where
  "canonical_row c date time_ampm r =
    [(''city'', Some c), (''date'', Some date), (''time_ampm'', Some time_ampm),
     (''temperature_c'', temperature_c r), (''humidity_percent'', humidity_percent r),
     (''conditions'', conditions r), (''wind_speed_kmh'', wind_speed_kmh r)]"

text \<open>
  The \<open>try\<close> block of the point loop (lines 52-56): \<open>None\<close> when \<open>rec["time_PKT"]\<close> or
  \<open>strptime\<close> raises, else the pair \<open>(date, time_ampm)\<close>.
\<close>

definition parse_time_PKT :: "pylib \<Rightarrow> point \<Rightarrow> (string \<times> string) option" where
  "parse_time_PKT lib r =
    (case time_PKT r of
       None \<Rightarrow> None
     | Some s \<Rightarrow>
         (case strptime lib s of
            None \<Rightarrow> None
          | Some dt \<Rightarrow> Some (strftime_date lib dt, strftime_time_ampm lib dt)))"

text \<open>The loop over the points of one city (lines 51-68): the rows it queues, in order.\<close>

fun new_rows :: "pylib \<Rightarrow> string \<Rightarrow> key set \<Rightarrow> point list \<Rightarrow> row list" where
  "new_rows lib c existing [] = []"
| "new_rows lib c existing (r # recs) =
    (case parse_time_PKT lib r of
       None \<Rightarrow> new_rows lib c existing recs
     | Some (date, time_ampm) \<Rightarrow>
         if [Some date, Some time_ampm] \<in> existing then new_rows lib c existing recs
         else canonical_row c date time_ampm r # new_rows lib c existing recs)"

definition replace_space :: "string \<Rightarrow> string" where
  "replace_space s = map (\<lambda>ch. if ch = CHR '' '' then CHR ''_'' else ch) s"

definition csv_file_of :: "pylib \<Rightarrow> string \<Rightarrow> string" where
  "csv_file_of lib c = path_join CLEAN_DIR (str_lower lib (replace_space c) @ ''_weather.csv'')"

text \<open>
  The loop over the cities (lines 45-73). It returns the exception that left it, if one
  did, and the world as it is at that moment: what earlier cities appended stays.
\<close>

fun city_loop ::
  "pylib \<Rightarrow> os_env \<Rightarrow> city_forecast list \<Rightarrow> world \<Rightarrow> exn option \<times> world" where
  "city_loop lib os [] w = (None, w)"
| "city_loop lib os (cf # cfs) w =
    (case city cf of
       Inl e \<Rightarrow> (Some e, w)
     | Inr c \<Rightarrow>
         (case load_existing_keys os w (csv_file_of lib c) of
            Inl e \<Rightarrow> (Some e, w)
          | Inr existing \<Rightarrow>
              (case current_hourly_forecast_PKT cf of
                 Inl e \<Rightarrow> (Some e, w)
               | Inr recs \<Rightarrow>
                   (let rows = new_rows lib c existing recs
                    in if rows \<noteq> [] then
                         (case append_rows os (csv_file_of lib c) rows headers w of
                            (Some e, w') \<Rightarrow> (Some e, w')
                          | (None, w') \<Rightarrow> city_loop lib os cfs w')
                       else city_loop lib os cfs w))))"

text \<open>
  \<open>transform_data\<close>: the \<open>try\<close> body reads the raw file, runs the loop and logs
  \<open>SUCCESS\<close>; whatever it raises goes through the \<open>except\<close> clause. The result is the
  exception raised or the directory returned, with the world left behind.
\<close>

definition read_raw :: "world \<Rightarrow> string \<Rightarrow> exn + city_forecast list" where
  "read_raw w raw_file =
    (case raw_files w raw_file of None \<Rightarrow> Inl (no_such_file raw_file) | Some r \<Rightarrow> r)"

definition transform_data ::
  "pylib \<Rightarrow> os_env \<Rightarrow> string \<Rightarrow> world \<Rightarrow> (exn + string) \<times> world" where
  "transform_data lib os raw_file w =
    (case read_raw w raw_file of
       Inl e \<Rightarrow> log_failed_and_raise os raw_file [] e w
     | Inr data \<Rightarrow>
         (case city_loop lib os data w of
            (Some e, w') \<Rightarrow> log_failed_and_raise os raw_file [] e w'
          | (None, w') \<Rightarrow>
              (case log_etl_status os raw_file CLEAN_DIR SUCCESS [] w' of
                 Inl e \<Rightarrow> log_failed_and_raise os raw_file [] e w'
               | Inr w'' \<Rightarrow> (Inr CLEAN_DIR, w''))))"


section \<open>The Fetcher (etl/extract.py)\<close>

definition RAW_DIR :: string where
  "RAW_DIR = ''/mnt/d/projects/open-meteo_weather_etl_pipeline/data/raw''"

text \<open>The cities in the order of the dict, each with latitude and longitude as written.\<close>

definition PUNJAB_CITIES :: "(string \<times> string \<times> string) list" where
  "PUNJAB_CITIES =
    [(''Lahore'', ''31.5497'', ''74.3436''), (''Faisalabad'', ''31.4180'', ''73.0791''),
     (''Rawalpindi'', ''33.6844'', ''73.0479''), (''Multan'', ''30.1989'', ''71.4687''),
     (''Sialkot'', ''32.5000'', ''74.5333''), (''Gujranwala'', ''32.1877'', ''74.1945''),
     (''Bahawalpur'', ''29.3957'', ''71.6833''), (''Rahim Yar Khan'', ''28.4202'', ''70.2952''),
     (''Dera Ghazi Khan'', ''30.0459'', ''70.6403''), (''Sahiwal'', ''30.6612'', ''73.1086''),
     (''Okara'', ''30.8081'', ''73.4458''), (''Kasur'', ''31.1164'', ''74.4500''),
     (''Sheikhupura'', ''31.7131'', ''73.9783''), (''Jhang'', ''31.2780'', ''72.3118''),
     (''Gujrat'', ''32.5731'', ''74.0780'')]"

text \<open>
  The \<open>hourly\<close> object of a response: the five parallel arrays, an absent one being the
  empty list as \<open>hourly.get(name, [])\<close> makes it. A weather code is the integer
  \<open>int(code)\<close> gives, \<open>None\<close> where \<open>int\<close> raises (a \<open>null\<close>).
\<close>

record hourly =
  time :: "string option list"
  temperature_2m :: "string option list"
  relative_humidity_2m :: "string option list"
  weather_code :: "int option list"
  wind_speed_10m :: "string option list"

text \<open>The point built at index \<open>i\<close> (lines 109-115), or the exception raised on the way.\<close>

definition point_of :: "hourly \<Rightarrow> nat \<Rightarrow> exn + point" where
  "point_of h i =
    (if length (temperature_2m h) \<le> i \<or> length (relative_humidity_2m h) \<le> i
        \<or> length (weather_code h) \<le> i then Inl index_out_of_range
     else case weather_code h ! i of
       None \<Rightarrow> Inl int_of_none
     | Some code \<Rightarrow>
         if length (wind_speed_10m h) \<le> i then Inl index_out_of_range
         else Inr \<lparr>time_PKT = time h ! i,
                   temperature_c = temperature_2m h ! i,
                   humidity_percent = relative_humidity_2m h ! i,
                   conditions = Some (interpret_weather_code code),
                   wind_speed_kmh = wind_speed_10m h ! i\<rparr>)"

fun decode_points :: "hourly \<Rightarrow> nat list \<Rightarrow> exn + point list" where
  "decode_points h [] = Inr []"
| "decode_points h (i # is) =
    (case point_of h i of
       Inl e \<Rightarrow> Inl e
     | Inr p \<Rightarrow> (case decode_points h is of Inl e \<Rightarrow> Inl e | Inr ps \<Rightarrow> Inr (p # ps)))"

text \<open>
  The inner \<open>try\<close> for one city. \<open>api lat lon\<close> is what the request for these
  coordinates gives: the \<open>hourly\<close> object, or the exception of \<open>requests.get\<close>,
  \<open>raise_for_status\<close> or \<open>resp.json\<close>, or the one raised on a body whose \<open>hourly\<close>
  is not an object of lists.
\<close>

definition fetch_city ::
  "(string \<Rightarrow> string \<Rightarrow> exn + hourly) \<Rightarrow> string \<Rightarrow> string \<Rightarrow> string \<Rightarrow> exn + city_forecast" where
  "fetch_city api c lat lon =
    (case api lat lon of
       Inl e \<Rightarrow> Inl e
     | Inr h \<Rightarrow>
         (case decode_points h [0..<length (time h)] of
            Inl e \<Rightarrow> Inl e
          | Inr ps \<Rightarrow> Inr \<lparr>city = Inr c, current_hourly_forecast_PKT = Inr ps\<rparr>))"

text \<open>
  The loop over the cities (lines 85-120): \<open>all_cities_data\<close>. The \<open>except\<close> branch
  prints and goes on; it does not call \<open>log_etl_status\<close>.
\<close>

fun all_cities_data ::
  "(string \<Rightarrow> string \<Rightarrow> exn + hourly) \<Rightarrow> (string \<times> string \<times> string) list \<Rightarrow> city_forecast list" where
  "all_cities_data api [] = []"
| "all_cities_data api ((c, lat, lon) # cities) =
    (case fetch_city api c lat lon of
       Inl e \<Rightarrow> all_cities_data api cities
     | Inr city_data \<Rightarrow> city_data # all_cities_data api cities)"

definition raw_file_path_at :: "string \<Rightarrow> string" where
  "raw_file_path_at now = path_join RAW_DIR (''punjab_weather_raw_'' @ now @ ''.json'')"

text \<open>What is left of a snapshot whose writing failed: a file that does not decode.\<close>

definition truncated_document :: "exn + city_forecast list" where
  "truncated_document = Inl (JSONDecodeError ''Expecting value'')"

text \<open>
  \<open>extract_data\<close>; \<open>now\<close> is \<open>datetime.now().strftime("%Y%m%d_%H%M%S")\<close>. The result
  is the exception raised or the path returned, with the world left behind.
\<close>

definition extract_data ::
  "(string \<Rightarrow> string \<Rightarrow> exn + hourly) \<Rightarrow> os_env \<Rightarrow> string \<Rightarrow> world \<Rightarrow> (exn + string) \<times> world" where
  "extract_data api os now w =
    (let data = all_cities_data api PUNJAB_CITIES;
         raw_file_path = raw_file_path_at now
     in case file_write os raw_file_path of
          OpenFails e \<Rightarrow> log_failed_and_raise os [] [] e w
        | WriteFails e n cells \<Rightarrow>
            log_failed_and_raise os [] [] e
              (w\<lparr>raw_files := (raw_files w)(raw_file_path \<mapsto> truncated_document)\<rparr>)
        | Written \<Rightarrow>
            (let w' = w\<lparr>raw_files := (raw_files w)(raw_file_path \<mapsto> Inr data)\<rparr>
             in case log_etl_status os raw_file_path [] SUCCESS [] w' of
                  Inl e \<Rightarrow> log_failed_and_raise os [] [] e w'
                | Inr w'' \<Rightarrow> (Inr raw_file_path, w'')))"

section \<open>The Publisher (etl/load.py)\<close>

text \<open>The values \<open>upload_to_s3\<close> reads from the parsed YAML; \<open>None\<close> is an absent key.\<close>

record aws_config =
  bucket_name :: "string option"
  clean_prefix :: "string option"
  region_name :: "string option"
  access_key_id :: "string option"
  secret_access_key :: "string option"

text \<open>A local path: a file, or a directory with what \<open>os.listdir\<close> gives for it.\<close>

datatype node = RegularFile | Directory "exn + string list"

text \<open>
  What the Publisher meets outside itself: the outcome of \<open>_read_config\<close>, the local
  paths, the time stamp taken when a path is uploaded, and the exception
  \<open>s3_client.upload_file(local_path, bucket, key)\<close> raises, if any.
\<close>

record load_env =
  read_config :: "exn + aws_config"
  local_fs :: "string \<Rightarrow> node option"
  upload_time :: "string \<Rightarrow> string"
  upload_file_error :: "string \<Rightarrow> string \<Rightarrow> string \<Rightarrow> exn option"

definition cross_mark :: string where
  "cross_mark = [CHR 0xE2, CHR 0x9D, CHR 0x8C]"

definition bucket_missing :: exn where
  "bucket_missing = ValueError (cross_mark @ '' '' @ quoted ''bucket_name''
     @ '' missing in aws_config.yaml under '' @ quoted ''s3'')"

definition make_s3_client :: "aws_config \<Rightarrow> exn + unit" where
  "make_s3_client cfg =
    (if \<not> (truthy (region_name cfg) \<and> truthy (access_key_id cfg) \<and> truthy (secret_access_key cfg))
     then Inl (ValueError (cross_mark @ '' Incomplete AWS configuration in aws_config.yaml''))
     else Inr ())"

text \<open>The key of lines 60-62: prefix, time stamp, an underscore and the file name.\<close>

definition s3_key :: "load_env \<Rightarrow> string \<Rightarrow> string \<Rightarrow> string" where
  "s3_key env prefix local_path =
    (let timestamp = upload_time env local_path;
         file_name = basename local_path
     in prefix @ timestamp @ ''_'' @ file_name)"

definition upload_one_file ::
  "load_env \<Rightarrow> string \<Rightarrow> string \<Rightarrow> string \<Rightarrow> world \<Rightarrow> exn + string \<times> world" where
  "upload_one_file env bucket prefix local_path w =
    (if local_fs env local_path = None
     then Inl (FileNotFoundError (''Clean file not found: '' @ local_path))
     else
       let key = s3_key env prefix local_path
       in case upload_file_error env local_path bucket key of
            Some e \<Rightarrow> Inl e
          | None \<Rightarrow>
              Inr (''s3://'' @ bucket @ ''/'' @ key,
                   w\<lparr>s3_objects := s3_objects w @ [(bucket, key, local_path)]\<rparr>))"

text \<open>The classes named by the \<open>except\<close> clause of the upload loop.\<close>

fun caught :: "exn \<Rightarrow> bool" where
  "caught (FileNotFoundError m) = True"
| "caught (NoCredentialsError m) = True"
| "caught (BotoCoreError m) = True"
| "caught (ClientError m) = True"
| "caught e = False"

text \<open>
  Lines 85-107 without their logging: the files to upload, or the exception that the
  code logs and raises.
\<close>

definition is_csv_name :: "pylib \<Rightarrow> string \<Rightarrow> bool" where
  "is_csv_name lib name = endswith (str_lower lib name) ''.csv''"

definition collect_paths :: "pylib \<Rightarrow> string \<Rightarrow> node option \<Rightarrow> exn + string list" where
  "collect_paths lib clean_path nd =
    (case nd of
       None \<Rightarrow> Inl (FileNotFoundError (cross_mark @ '' Path does not exist: '' @ clean_path))
     | Some (Directory listing) \<Rightarrow>
         (let paths = map (path_join clean_path)
                        (filter (is_csv_name lib) (case listing of Inl e \<Rightarrow> [] | Inr names \<Rightarrow> names))
          in if paths = []
             then Inl (FileNotFoundError (''No CSV files found to upload in: '' @ clean_path))
             else Inr paths)
     | Some RegularFile \<Rightarrow>
         (if is_csv_name lib clean_path then Inr [clean_path]
          else Inl (ValueError (cross_mark @ '' Expected a .csv file, got: '' @ clean_path))))"

text \<open>The \<open>except\<close> clause of the upload loop, for the exception \<open>e\<close> raised on \<open>p\<close>.\<close>

definition upload_except ::
  "os_env \<Rightarrow> string \<Rightarrow> exn \<Rightarrow> world \<Rightarrow> (exn + string list) \<times> world" where
  "upload_except os p e w =
    (if caught e then
       (case log_etl_status os [] p FAILED (''S3 upload failed for '' @ p @ '': '' @ str_exn e) w of
          Inl e' \<Rightarrow> (Inl e', w)
        | Inr w' \<Rightarrow> (Inl e, w'))
     else (Inl e, w))"

text \<open>The upload loop (lines 109-120).\<close>

fun upload_loop ::
  "os_env \<Rightarrow> load_env \<Rightarrow> string \<Rightarrow> string \<Rightarrow> string list \<Rightarrow> string list \<Rightarrow> world
     \<Rightarrow> (exn + string list) \<times> world" where
  "upload_loop os env bucket prefix [] uploaded w = (Inr uploaded, w)"
| "upload_loop os env bucket prefix (p # ps) uploaded w =
    (case upload_one_file env bucket prefix p w of
       Inl e \<Rightarrow> upload_except os p e w
     | Inr (uri, w') \<Rightarrow>
         (case log_etl_status os [] p SUCCESS [] w' of
            Inl e \<Rightarrow> upload_except os p e w'
          | Inr w'' \<Rightarrow> upload_loop os env bucket prefix ps (uploaded @ [uri]) w''))"

definition upload_to_s3 ::
  "pylib \<Rightarrow> os_env \<Rightarrow> load_env \<Rightarrow> string \<Rightarrow> world \<Rightarrow> (exn + string list) \<times> world" where
  "upload_to_s3 lib os env clean_path w =
    (case read_config env of
       Inl e \<Rightarrow> (Inl e, w)
     | Inr cfg \<Rightarrow>
         if \<not> truthy (bucket_name cfg) then (Inl bucket_missing, w)
         else
           (case make_s3_client cfg of
              Inl e \<Rightarrow> (Inl e, w)
            | Inr s3_client \<Rightarrow>
                (case local_fs env clean_path of
                   Some (Directory (Inl e)) \<Rightarrow> (Inl e, w)
                 | nd \<Rightarrow>
                     (case collect_paths lib clean_path nd of
                        Inl e \<Rightarrow> log_failed_and_raise os [] clean_path e w
                      | Inr paths \<Rightarrow>
                          upload_loop os env (case bucket_name cfg of None \<Rightarrow> [] | Some b \<Rightarrow> b)
                            (case clean_prefix cfg of None \<Rightarrow> ''clean/'' | Some prefix \<Rightarrow> prefix)
                            paths [] w))))"

section \<open>Notions used in the statements\<close>








text \<open>The keys \<open>load_existing_keys\<close> reads from a file, and from the file at a path.\<close>

definition keys_of :: "csv_file \<Rightarrow> key set" where
  "keys_of f = set (filter (\<lambda>key. list_all truthy key)
                 (map (\<lambda>row. map row DEDUP_FIELDS) (dict_reader f)))"

definition keys_at :: "world \<Rightarrow> string \<Rightarrow> key set" where
  "keys_at w p = (case clean_files w p of None \<Rightarrow> {} | Some f \<Rightarrow> keys_of f)"





text \<open>An entry without the points whose time stamp does not parse.\<close>

definition drop_unparseable :: "pylib \<Rightarrow> city_forecast \<Rightarrow> city_forecast" where
  "drop_unparseable lib cf =
    cf\<lparr>current_hourly_forecast_PKT :=
        (case current_hourly_forecast_PKT cf of
           Inl e \<Rightarrow> Inl e
         | Inr recs \<Rightarrow> Inr (filter (\<lambda>r. parse_time_PKT lib r \<noteq> None) recs))\<rparr>"

text \<open>The configuration names a bucket and complete credentials.\<close>

definition usable_config :: "load_env \<Rightarrow> string \<Rightarrow> string \<Rightarrow> bool" where
  "usable_config env bucket prefix =
    (case read_config env of
       Inl e \<Rightarrow> False
     | Inr cfg \<Rightarrow>
         bucket_name cfg = Some bucket \<and> bucket \<noteq> [] \<and> make_s3_client cfg = Inr ()
         \<and> prefix = (case clean_prefix cfg of None \<Rightarrow> ''clean/'' | Some x \<Rightarrow> x))"

text \<open>The upload of a path goes through: the path exists and \<open>upload_file\<close> does not raise.\<close>

definition uploads :: "load_env \<Rightarrow> string \<Rightarrow> string \<Rightarrow> string \<Rightarrow> bool" where
  "uploads env bucket prefix p =
    (local_fs env p \<noteq> None \<and> upload_file_error env p bucket (s3_key env prefix p) = None)"

text \<open>The exception that the upload of a path raises, if it raises.\<close>

definition upload_error :: "load_env \<Rightarrow> string \<Rightarrow> string \<Rightarrow> string \<Rightarrow> exn option" where
  "upload_error env bucket prefix p =
    (if local_fs env p = None then Some (FileNotFoundError (''Clean file not found: '' @ p))
     else upload_file_error env p bucket (s3_key env prefix p))"

definition success_row :: "string \<Rightarrow> log_row" where
  "success_row p = \<lparr>log_raw_file = [], log_clean_file = p, log_status = SUCCESS, log_error_message = []\<rparr>"

definition failed_row :: "string \<Rightarrow> string \<Rightarrow> string \<Rightarrow> log_row" where
  "failed_row raw_file clean_file msg =
    \<lparr>log_raw_file = raw_file, log_clean_file = clean_file, log_status = FAILED, log_error_message = msg\<rparr>"

text \<open>The exception of a write that did not go through.\<close>

fun write_error :: "write_outcome \<Rightarrow> exn option" where
  "write_error Written = None"
| "write_error (OpenFails e) = Some e"
| "write_error (WriteFails e n cells) = Some e"

definition log_row_of :: "string \<Rightarrow> string \<Rightarrow> status \<Rightarrow> string \<Rightarrow> log_row" where
  "log_row_of raw_file clean_file st msg =
    \<lparr>log_raw_file = raw_file, log_clean_file = clean_file, log_status = st, log_error_message = msg\<rparr>"

section \<open>Concrete inputs\<close>

definition calm :: os_env where
  "calm = \<lparr>file_write = (\<lambda>p. Written), file_read = (\<lambda>p. None), log_write = None\<rparr>"

definition empty_world :: world where
  "empty_world = \<lparr>raw_files = (\<lambda>p. None), clean_files = (\<lambda>p. None), audit_log = [], s3_objects = []\<rparr>"

definition lahore_csv :: string where
  "lahore_csv = ''/mnt/d/projects/open-meteo_weather_etl_pipeline/data/clean/lahore_weather.csv''"


definition point_at :: "string \<Rightarrow> string \<Rightarrow> point" where
  "point_at t c = \<lparr>time_PKT = Some t, temperature_c = Some ''20.5'', humidity_percent = Some ''40'',
     conditions = Some c, wind_speed_kmh = Some ''7.2''\<rparr>"

definition nine :: point where
  "nine = point_at ''2025-01-01T09:00'' ''Clear sky''"

definition ten :: point where
  "ten = point_at ''2025-01-01T10:00'' ''Overcast''"

definition lahore_entry :: city_forecast where
  "lahore_entry = \<lparr>city = Inr ''Lahore'', current_hourly_forecast_PKT = Inr [nine, ten]\<rparr>"


definition lahore_nine :: "string list" where
  "lahore_nine = [''Lahore'', ''2025-01-01'', ''09:00 AM'', ''20.5'', ''40'', ''Clear sky'', ''7.2'']"

definition lahore_ten :: "string list" where
  "lahore_ten = [''Lahore'', ''2025-01-01'', ''10:00 AM'', ''20.5'', ''40'', ''Overcast'', ''7.2'']"



text \<open>A world with one raw file, \<open>snap.json\<close>, and one dataset, that of Lahore.\<close>

definition world_of :: "city_forecast list \<Rightarrow> csv_file option \<Rightarrow> world" where
  "world_of data lahore =
    \<lparr>raw_files = (\<lambda>p. if p = ''snap.json'' then Some (Inr data) else None),
     clean_files = (\<lambda>p. if p = lahore_csv then lahore else None),
     audit_log = [], s3_objects = []\<rparr>"














text \<open>Multan and Lahore, where the Multan dataset cannot be opened for writing.\<close>

definition permission_denied :: exn where
  "permission_denied = PermissionError ''[Errno 13] Permission denied''"



text \<open>A file without the records that give no key: a key column is missing or empty.\<close>

definition without_blank_rows :: "csv_file \<Rightarrow> csv_file" where
  "without_blank_rows f =
    (case records f of
       [] \<Rightarrow> f
     | fieldnames # rest \<Rightarrow>
         f\<lparr>records := fieldnames #
              filter (\<lambda>row. list_all truthy (map (read_row fieldnames row) DEDUP_FIELDS)) rest\<rparr>)"

text \<open>
  The Lahore dataset holds the nine o'clock row with its time cell blanked and the ten
  o'clock row; the snapshot has nine and ten o'clock.
\<close>

definition lahore_nine_blank :: "string list" where
  "lahore_nine_blank = [''Lahore'', ''2025-01-01'', [], ''20.5'', ''40'', ''Clear sky'', ''7.2'']"

definition world_blank_time :: world where
  "world_blank_time =
     world_of [lahore_entry] (Some \<lparr>records = [headers, lahore_nine_blank, lahore_ten], terminated = True\<rparr>)"

text \<open>The Lahore dataset holds both rows but no header row, so the first row is read as one.\<close>

definition world_headerless :: world where
  "world_headerless =
     world_of [lahore_entry] (Some \<lparr>records = [lahore_nine, lahore_ten], terminated = True\<rparr>)"

text \<open>
  Requests: every one times out; or only the one for Lahore is answered, with one hour.
\<close>

definition timed_out :: exn where
  "timed_out = OSError ''Read timed out. (read timeout=15)''"

definition api_down :: "string \<Rightarrow> string \<Rightarrow> exn + hourly" where
  "api_down lat lon = Inl timed_out"

definition lahore_hourly :: hourly where
  "lahore_hourly = \<lparr>time = [Some ''2025-01-01T09:00''], temperature_2m = [Some ''20.5''],
     relative_humidity_2m = [Some ''40''], weather_code = [Some 0], wind_speed_10m = [Some ''7.2'']\<rparr>"

definition api_lahore_only :: "string \<Rightarrow> string \<Rightarrow> exn + hourly" where
  "api_lahore_only lat lon =
     (if lat = ''31.5497'' \<and> lon = ''74.3436'' then Inr lahore_hourly else Inl timed_out)"

definition snapshot_path :: string where
  "snapshot_path = ''/mnt/d/projects/open-meteo_weather_etl_pipeline/data/raw/punjab_weather_raw_20250101_090000.json''"

text \<open>The audit log cannot be written; everything else goes through.\<close>

definition log_unwritable :: os_env where
  "log_unwritable = \<lparr>file_write = (\<lambda>p. Written), file_read = (\<lambda>p. None),
     log_write = Some permission_denied\<rparr>"

text \<open>The disk is full when the snapshot is written.\<close>

definition disk_full :: exn where
  "disk_full = OSError ''[Errno 28] No space left on device''"

definition snapshot_cut :: os_env where
  "snapshot_cut = \<lparr>file_write = (\<lambda>p. WriteFails disk_full 0 []), file_read = (\<lambda>p. None),
     log_write = None\<rparr>"

text \<open>A point whose time stamp does not parse, before the nine o'clock point.\<close>

definition garbled :: point where
  "garbled = point_at ''2025-01-01 09:00'' ''Clear sky''"

definition lahore_garbled_entry :: city_forecast where
  "lahore_garbled_entry = \<lparr>city = Inr ''Lahore'', current_hourly_forecast_PKT = Inr [garbled, nine]\<rparr>"

text \<open>
  A configuration with a bucket and credentials, and a directory of datasets with two
  CSV files, a text file and a subdirectory that holds a CSV file of its own.
\<close>

definition good_config :: aws_config where
  "good_config = \<lparr>bucket_name = Some ''weather'', clean_prefix = None, region_name = Some ''ap-south-1'',
     access_key_id = Some ''AKIAEXAMPLE'', secret_access_key = Some ''hunter2''\<rparr>"

definition clean_dir_fs :: "string \<Rightarrow> node option" where
  "clean_dir_fs p =
     (if p = ''/data/clean''
      then Some (Directory (Inr [''lahore_weather.csv'', ''notes.txt'', ''MULTAN_WEATHER.CSV'', ''archive'']))
      else if p = ''/data/clean/archive'' then Some (Directory (Inr [''old.csv'']))
      else if p \<in> {''/data/clean/lahore_weather.csv'', ''/data/clean/notes.txt'',
                    ''/data/clean/MULTAN_WEATHER.CSV'', ''/data/clean/archive/old.csv''}
      then Some RegularFile
      else None)"

definition at_nine :: "string \<Rightarrow> string" where
  "at_nine p = ''2025/01/01_090000''"

definition s3_calm :: "string \<Rightarrow> string \<Rightarrow> string \<Rightarrow> exn option" where
  "s3_calm p bucket key = None"

definition good_env :: load_env where
  "good_env = \<lparr>read_config = Inr good_config, local_fs = clean_dir_fs, upload_time = at_nine,
     upload_file_error = s3_calm\<rparr>"

text \<open>The upload of the second CSV file is refused by the service, or fails in the transfer.\<close>

definition access_denied :: exn where
  "access_denied = ClientError ''An error occurred (AccessDenied) when calling the PutObject operation''"

definition transfer_failed :: exn where
  "transfer_failed = S3UploadFailedError ''Failed to upload /data/clean/MULTAN_WEATHER.CSV''"

definition multan_raises :: "exn \<Rightarrow> string \<Rightarrow> string \<Rightarrow> string \<Rightarrow> exn option" where
  "multan_raises e p bucket key = (if p = ''/data/clean/MULTAN_WEATHER.CSV'' then Some e else None)"

definition denied_env :: load_env where
  "denied_env = good_env\<lparr>upload_file_error := multan_raises access_denied\<rparr>"

definition transfer_env :: load_env where
  "transfer_env = good_env\<lparr>upload_file_error := multan_raises transfer_failed\<rparr>"

text \<open>The configuration file is not there.\<close>

definition config_not_found :: exn where
  "config_not_found = FileNotFoundError (cross_mark @ '' Config file not found'')"

definition no_config_env :: load_env where
  "no_config_env = good_env\<lparr>read_config := Inl config_not_found\<rparr>"

section \<open>Condition codes\<close>

text \<open>
  C5. \<open>interpret_weather_code\<close> is the first-match evaluation of a fixed ordered rule
  set whose exact-match rules all stand before its range rules; code 66 gives
  "Freezing Rain"; and a code that no rule matches gives the fallback label, which
  contains the decimal text of the code.
\<close>

theorem interpret_weather_code_rules:
  "list_all is_exact spec_exact_rules
   \<and> list_all (\<lambda>r. \<not> is_exact r) spec_range_rules
   \<and> interpret_weather_code code = spec_first_match (spec_exact_rules @ spec_range_rules) code
   \<and> interpret_weather_code 66 = ''Freezing Rain''
   \<and> ((\<forall>r \<in> set (spec_exact_rules @ spec_range_rules). \<not> rule_matches r code) \<longrightarrow>
        interpret_weather_code code = ''Conditions Varies (WMO Code '' @ str_int code @ '')'')"
  unfolding interpret_weather_code_def spec_exact_rules_def spec_range_rules_def
  by simp

theorem interpret_weather_code_rules_witness:
  "list_all (\<lambda>r. \<not> rule_matches r 200) (spec_exact_rules @ spec_range_rules)
   \<and> str_int 200 = ''200''
   \<and> interpret_weather_code 200 = ''Conditions Varies (WMO Code 200)''"
proof -
  have h: "\<forall>r \<in> set (spec_exact_rules @ spec_range_rules). \<not> rule_matches r 200"
    by (simp add: spec_exact_rules_def spec_range_rules_def)
  have s: "str_int 200 = ''200''"
    by (simp add: str_int_def digit_char_def)
  from interpret_weather_code_rules [of 200] h
  have "interpret_weather_code 200 = ''Conditions Varies (WMO Code '' @ str_int 200 @ '')''"
    by blast
  with h s show ?thesis by (simp add: list_all_iff)
qed

section \<open>Frame and invariants of the Reconciler\<close>


lemma log_etl_status_ok:
  "log_write os = None \<Longrightarrow>
     log_etl_status os a b c d w = Inr (w\<lparr>audit_log := audit_log w @
          [\<lparr>log_raw_file = a, log_clean_file = b, log_status = c, log_error_message = d\<rparr>]\<rparr>)"
  by (simp add: log_etl_status_def)


lemma log_failed_and_raise_ok:
  "log_write os = None \<Longrightarrow>
     log_failed_and_raise os a b e w =
       (Inl e, w\<lparr>audit_log := audit_log w @ [failed_row a b (str_exn e)]\<rparr>)"
  by (simp add: log_failed_and_raise_def log_etl_status_def failed_row_def)

lemma log_failed_and_raise_fails: "\<exists>e'. fst (log_failed_and_raise os a b e w) = Inl e'"
  by (auto simp: log_failed_and_raise_def split: sum.splits)






















section \<open>Append-only datasets\<close>




section \<open>Keys read back from a dataset\<close>

lemma load_existing_keys_keys_at:
  "load_existing_keys os w p = Inr ks \<Longrightarrow> ks = keys_at w p"
  by (auto simp: load_existing_keys_def keys_at_def keys_of_def split: option.splits)


lemma dict_reader_Cons:
  "records f = h # rs \<Longrightarrow>
     dict_reader f = map (read_row h) (filter (\<lambda>row. row \<noteq> []) rs)"
  by (simp add: dict_reader_def)























section \<open>Idempotence of the Reconciler\<close>





section \<open>What one run appends for a key\<close>











section \<open>A city that fails\<close>




section \<open>Rows that give no key\<close>

lemma keys_of_iff:
  "key \<in> keys_of f \<longleftrightarrow>
     (\<exists>row \<in> set (dict_reader f). key = [row ''date'', row ''time_ampm'']
        \<and> truthy (row ''date'') \<and> truthy (row ''time_ampm''))"
  by (auto simp: keys_of_def DEDUP_FIELDS_def)

lemma load_existing_keys_iff:
  assumes "load_existing_keys os w p = Inr ks"
  shows "key \<in> ks \<longleftrightarrow>
     (\<exists>f row. clean_files w p = Some f \<and> row \<in> set (dict_reader f)
        \<and> key = [row ''date'', row ''time_ampm'']
        \<and> truthy (row ''date'') \<and> truthy (row ''time_ampm''))"
proof -
  from assms have ks: "ks = keys_at w p" by (rule load_existing_keys_keys_at)
  show ?thesis
  proof (cases "clean_files w p")
    case None
    with ks show ?thesis by (simp add: keys_at_def)
  next
    case (Some f)
    with ks show ?thesis by (auto simp: keys_at_def keys_of_iff)
  qed
qed

lemma keys_of_without_blank_rows: "keys_of (without_blank_rows f) = keys_of f"
proof (cases "records f")
  case Nil
  then show ?thesis by (simp add: without_blank_rows_def)
next
  case (Cons h rs)
  have r: "records (without_blank_rows f) =
      h # filter (\<lambda>row. list_all truthy (map (read_row h row) DEDUP_FIELDS)) rs"
    using Cons by (simp add: without_blank_rows_def)
  show ?thesis
    by (auto simp: keys_of_def dict_reader_Cons [OF Cons] dict_reader_Cons [OF r])
qed

lemma load_existing_keys_Some:
  "clean_files w p = Some f \<Longrightarrow>
     load_existing_keys os w p = (case file_read os p of Some e \<Rightarrow> Inl e | None \<Rightarrow> Inr (keys_of f))"
  by (simp add: load_existing_keys_def keys_of_def split: option.splits)

lemma load_existing_keys_without_blank_rows:
  assumes "clean_files w p = Some f" and "clean_files w' p = Some (without_blank_rows f)"
  shows "load_existing_keys os w' p = load_existing_keys os w p"
  using assms
  by (simp add: load_existing_keys_Some keys_of_without_blank_rows split: option.splits)

lemma blank_time_example:
  "clean_files (snd (transform_data python_ascii calm ''snap.json'' world_blank_time)) lahore_csv
     = Some \<lparr>records = [headers, lahore_nine_blank, lahore_ten, lahore_nine], terminated = True\<rparr>"
  by code_simp

lemma headerless_example:
  "clean_files (snd (transform_data python_ascii calm ''snap.json'' world_headerless)) lahore_csv
     = Some \<lparr>records = [lahore_nine, lahore_ten, lahore_nine, lahore_ten], terminated = True\<rparr>"
  by code_simp

text \<open>
  C9. The keys \<open>load_existing_keys\<close> returns are those of the rows whose \<open>date\<close> and
  \<open>time_ampm\<close> are both present and not empty; a row for which one of them is missing or
  empty gives no key, so the keys, and with them what a run appends, are the same as for
  the file without these rows. Such a row does not keep its observation from being
  appended again: with the time cell of the nine o'clock row blanked, a run appends the
  nine o'clock row once more; and in a dataset without a header row, where the column
  \<open>date\<close> is missing for every row, a run appends the ten o'clock row a second time.
\<close>

theorem blank_rows_give_no_key:
  "(load_existing_keys os w p = Inr ks \<longrightarrow>
      (key \<in> ks \<longleftrightarrow>
         (\<exists>f row. clean_files w p = Some f \<and> row \<in> set (dict_reader f)
            \<and> key = [row ''date'', row ''time_ampm'']
            \<and> truthy (row ''date'') \<and> truthy (row ''time_ampm''))))
   \<and> (clean_files w p = Some f \<longrightarrow> clean_files w' p = Some (without_blank_rows f) \<longrightarrow>
        load_existing_keys os w' p = load_existing_keys os w p)
   \<and> clean_files (snd (transform_data python_ascii calm ''snap.json'' world_blank_time)) lahore_csv
       = Some \<lparr>records = [headers, lahore_nine_blank, lahore_ten, lahore_nine], terminated = True\<rparr>
   \<and> clean_files (snd (transform_data python_ascii calm ''snap.json'' world_headerless)) lahore_csv
       = Some \<lparr>records = [lahore_nine, lahore_ten, lahore_nine, lahore_ten], terminated = True\<rparr>"
  using load_existing_keys_iff [of os w p ks key]
    load_existing_keys_without_blank_rows [of w p f w' os]
    blank_time_example headerless_example
  by blast

theorem blank_rows_give_no_key_witness:
  "load_existing_keys calm world_blank_time lahore_csv = Inr {[Some ''2025-01-01'', Some ''10:00 AM'']}
   \<and> clean_files world_blank_time lahore_csv
       = Some \<lparr>records = [headers, lahore_nine_blank, lahore_ten], terminated = True\<rparr>
   \<and> without_blank_rows \<lparr>records = [headers, lahore_nine_blank, lahore_ten], terminated = True\<rparr>
       = \<lparr>records = [headers, lahore_ten], terminated = True\<rparr>
   \<and> [Some ''2025-01-01'', Some []] \<notin> {[Some ''2025-01-01'', Some ''10:00 AM'']}"
proof -
  have h: "load_existing_keys calm world_blank_time lahore_csv = Inr {[Some ''2025-01-01'', Some ''10:00 AM'']}"
    by (simp add: load_existing_keys_def world_blank_time_def world_of_def calm_def dict_reader_def
        read_row_def headers_def lahore_nine_blank_def lahore_ten_def DEDUP_FIELDS_def truthy_def)
  have f: "clean_files world_blank_time lahore_csv
       = Some \<lparr>records = [headers, lahore_nine_blank, lahore_ten], terminated = True\<rparr>"
    by (simp add: world_blank_time_def world_of_def)
  have b: "without_blank_rows \<lparr>records = [headers, lahore_nine_blank, lahore_ten], terminated = True\<rparr>
       = \<lparr>records = [headers, lahore_ten], terminated = True\<rparr>"
    by (simp add: without_blank_rows_def read_row_def headers_def lahore_nine_blank_def lahore_ten_def
        DEDUP_FIELDS_def truthy_def)
  from blank_rows_give_no_key [of calm world_blank_time lahore_csv
      "{[Some ''2025-01-01'', Some ''10:00 AM'']}" "[Some ''2025-01-01'', Some []]"] h f b
  show ?thesis by simp
qed

section \<open>When the Fetcher fails\<close>

lemma extract_data_written:
  assumes "log_write os = None" and "file_write os (raw_file_path_at now) = Written"
  shows "extract_data api os now w =
     (Inr (raw_file_path_at now),
      w\<lparr>raw_files := (raw_files w)(raw_file_path_at now \<mapsto> Inr (all_cities_data api PUNJAB_CITIES)),
        audit_log := audit_log w @ [log_row_of (raw_file_path_at now) [] SUCCESS []]\<rparr>)"
  using assms by (simp add: extract_data_def Let_def log_etl_status_def log_row_of_def)

lemma extract_data_not_written:
  assumes "log_write os = None" and "write_error (file_write os (raw_file_path_at now)) = Some e"
  shows "fst (extract_data api os now w) = Inl e
     \<and> audit_log (snd (extract_data api os now w)) = audit_log w @ [log_row_of [] [] FAILED (str_exn e)]"
  using assms
  by (cases "file_write os (raw_file_path_at now)")
    (simp_all add: extract_data_def Let_def log_failed_and_raise_ok failed_row_def log_row_of_def)

text \<open>
  C4, as amended. With the audit log writable, \<open>extract_data\<close> raises if and only if
  persisting the snapshot file fails, and logs \<open>FAILED\<close> exactly then; the responses
  play no part in it. In particular, when every request fails it writes a snapshot
  without entities, logs \<open>SUCCESS\<close> and returns the path.
\<close>

theorem extract_fails_iff_write_fails:
  assumes "log_write os = None"
  shows "fst (extract_data api os now w) =
           (case write_error (file_write os (raw_file_path_at now)) of
              None \<Rightarrow> Inr (raw_file_path_at now)
            | Some e \<Rightarrow> Inl e)
         \<and> audit_log (snd (extract_data api os now w)) =
             audit_log w @
               [case write_error (file_write os (raw_file_path_at now)) of
                  None \<Rightarrow> log_row_of (raw_file_path_at now) [] SUCCESS []
                | Some e \<Rightarrow> log_row_of [] [] FAILED (str_exn e)]
         \<and> (write_error (file_write os (raw_file_path_at now)) = None \<longrightarrow>
               raw_files (snd (extract_data api os now w)) (raw_file_path_at now)
                 = Some (Inr (all_cities_data api PUNJAB_CITIES)))"
proof (cases "write_error (file_write os (raw_file_path_at now))")
  case None
  then have "file_write os (raw_file_path_at now) = Written"
    by (cases "file_write os (raw_file_path_at now)") simp_all
  from extract_data_written [OF assms this, of api w] None show ?thesis by simp
next
  case (Some e)
  from extract_data_not_written [OF assms Some, of api w] Some show ?thesis by simp
qed

lemma all_down: "all_cities_data api_down cities = []"
  by (induction cities) (auto simp: fetch_city_def api_down_def)

lemma path_at: "raw_file_path_at ''20250101_090000'' = snapshot_path"
  by (simp add: raw_file_path_at_def snapshot_path_def RAW_DIR_def path_join_def)

theorem extract_fails_iff_write_fails_witness:
  "log_write calm = None \<and> log_write snapshot_cut = None
   \<and> write_error (file_write calm snapshot_path) = None
   \<and> fst (extract_data api_lahore_only calm ''20250101_090000'' empty_world) = Inr snapshot_path
   \<and> raw_files (snd (extract_data api_lahore_only calm ''20250101_090000'' empty_world)) snapshot_path
       = Some (Inr [\<lparr>city = Inr ''Lahore'', current_hourly_forecast_PKT = Inr [nine]\<rparr>])
   \<and> fst (extract_data api_lahore_only snapshot_cut ''20250101_090000'' empty_world) = Inl disk_full
   \<and> audit_log (snd (extract_data api_lahore_only snapshot_cut ''20250101_090000'' empty_world))
       = [log_row_of [] [] FAILED (str_exn disk_full)]"
proof -
  have h1: "log_write calm = None" and h2: "log_write snapshot_cut = None"
    by (simp_all add: calm_def snapshot_cut_def)
  have w1: "write_error (file_write calm snapshot_path) = None"
    and w2: "write_error (file_write snapshot_cut snapshot_path) = Some disk_full"
    by (simp_all add: calm_def snapshot_cut_def)
  have d: "all_cities_data api_lahore_only PUNJAB_CITIES
      = [\<lparr>city = Inr ''Lahore'', current_hourly_forecast_PKT = Inr [nine]\<rparr>]"
    by code_simp
  have e: "audit_log empty_world = []"
    by (simp add: empty_world_def)
  from extract_fails_iff_write_fails [OF h1, of api_lahore_only "''20250101_090000''" empty_world]
    extract_fails_iff_write_fails [OF h2, of api_lahore_only "''20250101_090000''" empty_world]
    h1 h2 w1 w2 d e
  show ?thesis by (simp add: path_at)
qed

theorem fetcher_failure_counterexample:
  "all_cities_data api_down PUNJAB_CITIES = []
   \<and> fst (extract_data api_down calm ''20250101_090000'' empty_world) = Inr snapshot_path
   \<and> raw_files (snd (extract_data api_down calm ''20250101_090000'' empty_world)) snapshot_path
       = Some (Inr [])
   \<and> map log_status (audit_log (snd (extract_data api_down calm ''20250101_090000'' empty_world)))
       = [SUCCESS]
   \<and> file_write log_unwritable snapshot_path = Written
   \<and> fst (extract_data api_lahore_only log_unwritable ''20250101_090000'' empty_world)
       = Inl permission_denied"
proof -
  have c: "log_write calm = None" "file_write calm (raw_file_path_at ''20250101_090000'') = Written"
    by (simp_all add: calm_def)
  have u: "fst (extract_data api_lahore_only log_unwritable ''20250101_090000'' empty_world)
       = Inl permission_denied"
    by (simp add: extract_data_def Let_def log_unwritable_def log_etl_status_def log_failed_and_raise_def)
  from extract_data_written [OF c, of api_down empty_world] u show ?thesis
    by (simp add: all_down path_at empty_world_def log_row_of_def log_unwritable_def)
qed

end
